theory Spec2Isabelle
  imports Main "HOL-Library.Word"
begin

unbundle bit_operations_syntax

section \<open>Storage class memory manager (scm.c)\<close>

text \<open>
  A shallow embedding of \<^verbatim>\<open>scm.c\<close>. The file maps a regular file at a fixed virtual
  address, keeps a three-word header at the start of the mapping and hands out the rest
  with a bump allocator.

  \<^item> \<^verbatim>\<open>size_t\<close> is a 64-bit word: \<^verbatim>\<open>META_SIZE\<close> is 24 for three \<^verbatim>\<open>size_t\<close> fields
    and \<^verbatim>\<open>VM_ADDR\<close> does not fit 32 bits. Addition, subtraction and multiplication
    wrap around, division and comparison are unsigned, as in C.
  \<^item> A pointer is the address it holds, a 64-bit word; \<^verbatim>\<open>NULL\<close> is 0 and
    \<^verbatim>\<open>MAP_FAILED\<close> is \<^verbatim>\<open>(void *) -1\<close>.
  \<^item> What the C standard leaves undefined (using the handle after it was freed, freeing
    it twice, dividing by zero, writing through \<^verbatim>\<open>NULL\<close> or outside the mapping) is
    a value of its own, \<open>Fault\<close>: the model stops there and says why.
  \<^item> The three words of the header are stored with the low byte first, as on x86-64.
  \<^item> The operating system is a record of answers (\<open>env\<close>), one field for each call
    the code makes.
\<close>

subsection \<open>Constants and data\<close>

type_synonym size_t = "64 word"
type_synonym byte = "8 word"

definition META_SIZE :: size_t where
  "META_SIZE = 24"

definition SCM_SIGNATURE :: size_t where
  "SCM_SIGNATURE = 0xDEEDBEED"

definition VM_ADDR :: size_t where
  "VM_ADDR = 0x600000000003"

definition MAP_FAILED :: size_t where
  "MAP_FAILED = - 1"

text \<open>\<^verbatim>\<open>struct metadata\<close>; the field \<^verbatim>\<open>size\<close> is \<open>size_m\<close> here.\<close>

record metadata =
  size_m :: size_t
  signature :: size_t
  checksum :: size_t

text \<open>\<^verbatim>\<open>struct scm\<close>.\<close>

record scm =
  fd :: int
  mem :: size_t
  utilized :: size_t
  capacity :: size_t

datatype fault = UseAfterFree | DoubleFree | DivideByZero | NullWrite | WildPointer | OutOfBounds

text \<open>
  A call returns a value, runs into undefined behaviour, or (the write loop of
  \<^verbatim>\<open>init_zero\<close> only) is still running when the scripted answers are used up.
\<close>

datatype 'a outcome = Returns 'a | Fault fault | NoReturn

text \<open>
  The answers of the operating system and of the absent \<^verbatim>\<open>page_size()\<close>:
  \<^item> \<open>malloc_ok\<close>: \<^verbatim>\<open>malloc(sizeof(struct scm))\<close> returned a block;
  \<^item> \<open>open_ret\<close>: what \<^verbatim>\<open>open(pathname, O_RDWR)\<close> returned;
  \<^item> \<open>fstat_ret\<close>: \<open>None\<close> when \<^verbatim>\<open>fstat\<close> returned -1, else
    \<open>Some (S_ISREG(st_mode), st_size)\<close>, with \<^verbatim>\<open>st_size\<close> as converted to \<^verbatim>\<open>size_t\<close>;
  \<^item> \<open>page\<close>: what \<^verbatim>\<open>page_size()\<close> returned;
  \<^item> \<open>brk\<close>: what \<^verbatim>\<open>sbrk(0)\<close> returned;
  \<^item> \<open>wr_open_ret\<close>: what \<^verbatim>\<open>open(filename, O_WRONLY)\<close> returned in \<^verbatim>\<open>init_zero\<close>;
  \<^item> \<open>wr_rets\<close>: what the successive \<^verbatim>\<open>write\<close> calls of \<^verbatim>\<open>init_zero\<close> returned;
  \<^item> \<open>mmap_ok\<close>: the kernel could place the mapping at the fixed address;
  \<^item> \<open>file_header\<close>: the first \<^verbatim>\<open>META_SIZE\<close> bytes of the file, read as three words.
\<close>

record env =
  malloc_ok :: bool
  open_ret :: int
  fstat_ret :: "(bool \<times> size_t) option"
  page :: size_t
  brk :: size_t
  wr_open_ret :: int
  wr_rets :: "int list"
  mmap_ok :: bool
  file_header :: metadata

text \<open>
  The resources \<^verbatim>\<open>scm_open\<close> acquires and \<^verbatim>\<open>scm_close\<close> releases:
  \<^item> \<open>scm_live\<close>: the block of the handle is allocated and not freed;
  \<^item> \<open>fd_open\<close>: the descriptor of the backing file is open;
  \<^item> \<open>mapped\<close>: the address and the length of the mapping while there is one;
  \<^item> \<open>header\<close>: the header record at offset 0 of the file (the mapping is
    \<^verbatim>\<open>MAP_SHARED\<close>, so the record in memory and the one in the file are the same);
  \<^item> \<open>zero_filled\<close>: the number of bytes, from offset 0, that \<^verbatim>\<open>init_zero\<close> has
    overwritten with zeros; the file is at least that long afterwards, also where it
    was shorter before.
\<close>

record world =
  scm_live :: bool
  fd_open :: bool
  mapped :: "(size_t \<times> size_t) option"
  header :: metadata
  zero_filled :: size_t

subsection \<open>Metadata codec\<close>

definition calculate_checksum :: "metadata \<Rightarrow> size_t" where
  "calculate_checksum meta = size_m meta XOR signature meta"

text \<open>
  The three functions below take the record \<^verbatim>\<open>scm->mem\<close> points to as an argument;
  those that write to it return it, those that write to the handle return the handle.
\<close>

definition initialize_metadata :: "scm \<Rightarrow> metadata \<Rightarrow> metadata \<times> scm" where
  "initialize_metadata s meta =
     (let m1 = meta\<lparr>size_m := 0\<rparr>;
          m2 = m1\<lparr>signature := SCM_SIGNATURE\<rparr>;
          m3 = m2\<lparr>checksum := calculate_checksum m2\<rparr>
      in (m3, s\<lparr>utilized := 0\<rparr>))"

definition load_metadata :: "scm \<Rightarrow> metadata \<Rightarrow> int \<times> scm" where
  "load_metadata s meta =
     (if signature meta \<noteq> SCM_SIGNATURE then (- 1, s)
      else if checksum meta \<noteq> calculate_checksum meta then (- 1, s)
      else (0, s\<lparr>utilized := size_m meta\<rparr>))"

definition store_metadata :: "scm \<Rightarrow> metadata \<Rightarrow> metadata" where
  "store_metadata s meta =
     (let m1 = meta\<lparr>size_m := utilized s\<rparr>
      in m1\<lparr>checksum := calculate_checksum m1\<rparr>)"

subsection \<open>Mapping manager\<close>

text \<open>
  \<^verbatim>\<open>FREE\<close> is a macro of the absent header; it is taken to release the block as
  \<^verbatim>\<open>free\<close> does. Releasing a block twice is undefined. \<^verbatim>\<open>TRACE\<close> only prints.
\<close>

definition FREE_scm :: "world \<Rightarrow> world outcome" where
  "FREE_scm w = (if scm_live w then Returns (w\<lparr>scm_live := False\<rparr>) else Fault DoubleFree)"

text \<open>
  \<^verbatim>\<open>file_size\<close> returns its status, the handle and the resources. On the two error
  paths the block of the handle is released (and on the first the descriptor closed)
  before -1 is returned.
\<close>

definition file_size :: "env \<Rightarrow> scm \<Rightarrow> world \<Rightarrow> (int \<times> scm \<times> world) outcome" where
  "file_size e s w =
     (if \<not> scm_live w then Fault UseAfterFree
      else case fstat_ret e of
        None \<Rightarrow> Returns (- 1, s, w\<lparr>fd_open := False, scm_live := False\<rparr>)
      | Some (is_reg, st_size) \<Rightarrow>
          if is_reg then
            (if page e = 0 then Fault DivideByZero
             else let s1 = s\<lparr>capacity := st_size\<rparr>;
                      s2 = s1\<lparr>capacity := (capacity s1 div page e) * page e\<rparr>
                  in Returns (if capacity s2 \<noteq> 0 then - 1 else 0, s2, w))
          else Returns (- 1, s, w\<lparr>scm_live := False\<rparr>))"

text \<open>
  The write loop of \<^verbatim>\<open>init_zero\<close>, over the answers of \<^verbatim>\<open>write\<close>. A \<^verbatim>\<open>write\<close>
  may return 0 for ever; the loop is then still running when the answers are used up.
  The loop returns its status and \<^verbatim>\<open>bytes_written\<close>: the zeros are in the file
  whatever the status is. Each \<^verbatim>\<open>write\<close> is of a whole buffer of 4096 bytes, so the
  last one may go past \<open>sz\<close>.
\<close>

fun init_zero_loop :: "int list \<Rightarrow> size_t \<Rightarrow> size_t \<Rightarrow> (int \<times> size_t) outcome" where
  "init_zero_loop [] bytes_written sz =
     (if bytes_written < sz then NoReturn else Returns (0, bytes_written))"
| "init_zero_loop (r # rs) bytes_written sz =
     (if bytes_written < sz then
        (if r = - 1 then Returns (- 1, bytes_written)
         else init_zero_loop rs (bytes_written + of_int r) sz)
      else Returns (0, bytes_written))"

definition init_zero :: "env \<Rightarrow> size_t \<Rightarrow> (int \<times> size_t) outcome" where
  "init_zero e sz =
     (if wr_open_ret e = - 1 then Returns (- 1, 0)
      else init_zero_loop (wr_rets e) 0 sz)"

text \<open>
  What \<open>n\<close> zero bytes written from offset 0 do to the header: the \<open>k\<close> low bytes
  of a word are cleared, and the header has its first \<open>n\<close> bytes cleared.
\<close>

definition zero_low_bytes :: "nat \<Rightarrow> size_t \<Rightarrow> size_t" where
  "zero_low_bytes k x = push_bit (8 * k) (drop_bit (8 * k) x)"

definition zero_fill :: "size_t \<Rightarrow> world \<Rightarrow> world" where
  "zero_fill n w =
     w\<lparr>header :=
         \<lparr>size_m = zero_low_bytes (unat n) (size_m (header w)),
          signature = zero_low_bytes (unat n - 8) (signature (header w)),
          checksum = zero_low_bytes (unat n - 16) (checksum (header w))\<rparr>,
       zero_filled := n\<rparr>"

text \<open>
  \<^verbatim>\<open>scm_open\<close> from the \<^verbatim>\<open>mmap\<close> call on. \<^verbatim>\<open>mmap\<close> with \<^verbatim>\<open>MAP_FIXED\<close> returns the
  requested address or \<^verbatim>\<open>MAP_FAILED\<close>; POSIX has it fail for a length of 0. The
  status of \<^verbatim>\<open>load_metadata\<close> is dropped, as in the source.
\<close>

definition open_map :: "env \<Rightarrow> int \<Rightarrow> size_t \<Rightarrow> scm \<Rightarrow> world \<Rightarrow> (scm option \<times> world) outcome" where
  "open_map e trunc vm_addr s w =
     (if \<not> scm_live w then Fault UseAfterFree
      else
        let s1 = s\<lparr>mem := (if mmap_ok e \<and> capacity s \<noteq> 0 then vm_addr else MAP_FAILED)\<rparr>
        in if mem s1 = MAP_FAILED then
             (case FREE_scm w of
                Returns w1 \<Rightarrow> Returns (None, w1)
              | Fault f \<Rightarrow> Fault f
              | NoReturn \<Rightarrow> NoReturn)
           else
             let w1 = w\<lparr>mapped := Some (mem s1, capacity s1)\<rparr>;
                 (s2, w2) =
                   (if trunc \<noteq> 0 then
                      (case initialize_metadata s1 (header w1) of
                         (m, s') \<Rightarrow> (s', w1\<lparr>header := m\<rparr>))
                    else (snd (load_metadata s1 (header w1)), w1))
             in Returns (Some (s2\<lparr>mem := mem s2 + META_SIZE\<rparr>), w2))"

text \<open>
  \<^verbatim>\<open>scm_open\<close> from \<^verbatim>\<open>sbrk(0)\<close> to the zero fill. The handle is read here for the
  first time after \<^verbatim>\<open>file_size\<close>, whose status the caller did not look at. The
  zeros \<^verbatim>\<open>init_zero\<close> has written are in the file on both ways out of it.
\<close>

definition open_place :: "env \<Rightarrow> int \<Rightarrow> scm \<Rightarrow> world \<Rightarrow> (scm option \<times> world) outcome" where
  "open_place e trunc s w =
     (if page e = 0 then Fault DivideByZero
      else
        let curr = brk e;
            vm_addr = (VM_ADDR div page e) * page e
        in if vm_addr < curr then
             (case FREE_scm w of
                Returns w1 \<Rightarrow> Returns (None, w1)
              | Fault f \<Rightarrow> Fault f
              | NoReturn \<Rightarrow> NoReturn)
           else if trunc \<noteq> 0 then
             (if \<not> scm_live w then Fault UseAfterFree
              else case fstat_ret e of
                None \<Rightarrow> Returns (None, w\<lparr>fd_open := False, scm_live := False\<rparr>)
              | Some (is_reg, st_size) \<Rightarrow>
                  (case init_zero e st_size of
                     Returns (rc, written) \<Rightarrow>
                       let w1 = zero_fill written w
                       in if rc \<noteq> 0 then
                            Returns (None, w1\<lparr>fd_open := False, scm_live := False\<rparr>)
                          else open_map e trunc vm_addr s w1
                   | Fault f \<Rightarrow> Fault f
                   | NoReturn \<Rightarrow> NoReturn))
           else open_map e trunc vm_addr s w)"

definition scm_open :: "env \<Rightarrow> int \<Rightarrow> (scm option \<times> world) outcome" where
  "scm_open e trunc =
     (let w0 = \<lparr>scm_live = False, fd_open = False, mapped = None, header = file_header e, zero_filled = 0\<rparr>
      in if \<not> malloc_ok e then Returns (None, w0)
         else
           let s0 = \<lparr>fd = 0, mem = 0, utilized = 0, capacity = 0\<rparr>;
               w1 = w0\<lparr>scm_live := True\<rparr>;
               s1 = s0\<lparr>fd := open_ret e\<rparr>
           in if fd s1 < 0 then
                (case FREE_scm w1 of
                   Returns w2 \<Rightarrow> Returns (None, w2)
                 | Fault f \<Rightarrow> Fault f
                 | NoReturn \<Rightarrow> NoReturn)
              else
                (case file_size e s1 (w1\<lparr>fd_open := True\<rparr>) of
                   Returns (rc, s2, w2) \<Rightarrow> open_place e trunc s2 w2
                 | Fault f \<Rightarrow> Fault f
                 | NoReturn \<Rightarrow> NoReturn))"

definition scm_capacity :: "scm \<Rightarrow> size_t" where
  "scm_capacity s = capacity s"

definition scm_utilized :: "scm \<Rightarrow> size_t" where
  "scm_utilized s = utilized s"

definition scm_mbase :: "scm \<Rightarrow> size_t" where
  "scm_mbase s = mem s"

text \<open>
  \<^verbatim>\<open>scm_close\<close>. The header is written through \<^verbatim>\<open>scm->mem - META_SIZE\<close>, which is
  the header of the mapping when that address is where the mapping is. \<^verbatim>\<open>msync\<close>
  and \<^verbatim>\<open>munmap\<close> failures are only traced; a failed \<^verbatim>\<open>munmap\<close> leaves the mapping.
  \<^verbatim>\<open>munmap\<close> releases \<^verbatim>\<open>scm->capacity\<close> bytes from that address: all of the mapping
  when it is no longer than that, its front otherwise. A descriptor 0 is not closed.
\<close>

definition scm_close :: "int \<Rightarrow> scm \<Rightarrow> world \<Rightarrow> world outcome" where
  "scm_close munmap_ret s w =
     (if \<not> scm_live w then Fault UseAfterFree
      else
        let s1 = s\<lparr>mem := mem s - META_SIZE\<rparr>
        in case mapped w of
             None \<Rightarrow> Fault WildPointer
           | Some (base, len) \<Rightarrow>
               if base \<noteq> mem s1 then Fault WildPointer
               else
                 let w1 = w\<lparr>header := store_metadata s1 (header w)\<rparr>;
                     w2 = (if mem s1 \<noteq> 0 \<and> mem s1 \<noteq> MAP_FAILED then
                             (if munmap_ret = - 1 then w1
                              else if capacity s1 < len then
                                w1\<lparr>mapped := Some (base + capacity s1, len - capacity s1)\<rparr>
                              else w1\<lparr>mapped := None\<rparr>)
                           else w1);
                     w3 = (if fd s1 \<noteq> 0 then w2\<lparr>fd_open := False\<rparr> else w2)
                 in Returns (w3\<lparr>scm_live := False\<rparr>))"

subsection \<open>Linear allocator\<close>

text \<open>
  \<^verbatim>\<open>scm_malloc\<close> returns the pointer and the handle. The pointer is the address as
  a word and \<^verbatim>\<open>NULL\<close> is 0, so a cursor address that wraps to 0 is the same value as
  the \<^verbatim>\<open>return NULL\<close> of the source. The sum in the guard is a \<^verbatim>\<open>size_t\<close> sum.
\<close>

definition scm_malloc :: "scm \<Rightarrow> size_t \<Rightarrow> size_t \<times> scm" where
  "scm_malloc s n =
     (if utilized s + n \<le> capacity s then
        (mem s + utilized s, s\<lparr>utilized := utilized s + n\<rparr>)
      else (0, s))"

text \<open>
  A C string is given by its bytes; it ends before the first NUL byte. The bytes
  of the mapping after the header are a map from addresses to bytes.
\<close>

definition c_str :: "byte list \<Rightarrow> byte list" where
  "c_str bs = takeWhile (\<lambda>b. b \<noteq> 0) bs"

definition strlen :: "byte list \<Rightarrow> size_t" where
  "strlen bs = of_nat (length (c_str bs))"

text \<open>
  A byte stored at offset \<open>k\<close> of the mapping, \<open>k\<close> below \<^verbatim>\<open>META_SIZE\<close>, replaces
  byte \<open>k mod 8\<close> of the header word \<open>k div 8\<close>.
\<close>

definition set_byte :: "nat \<Rightarrow> byte \<Rightarrow> size_t \<Rightarrow> size_t" where
  "set_byte i b x = (x AND NOT (push_bit (8 * i) 255)) OR push_bit (8 * i) (ucast b)"

definition set_header_byte :: "nat \<Rightarrow> byte \<Rightarrow> metadata \<Rightarrow> metadata" where
  "set_header_byte k b meta =
     (if k < 8 then meta\<lparr>size_m := set_byte k b (size_m meta)\<rparr>
      else if k < 16 then meta\<lparr>signature := set_byte (k - 8) b (signature meta)\<rparr>
      else meta\<lparr>checksum := set_byte (k - 16) b (checksum meta)\<rparr>)"

text \<open>
  The bytes \<^verbatim>\<open>strcpy\<close> stores, one after the other from \<open>a\<close> on, into the mapping
  of \<open>len\<close> bytes at \<open>base\<close>. A byte outside the mapping is a fault; a byte in the
  first \<^verbatim>\<open>META_SIZE\<close> bytes lands in the header; any other lands in \<open>m\<close>.
\<close>

fun write_bytes ::
  "size_t \<Rightarrow> size_t \<Rightarrow> metadata \<Rightarrow> (size_t \<Rightarrow> byte) \<Rightarrow> size_t \<Rightarrow> byte list
     \<Rightarrow> (metadata \<times> (size_t \<Rightarrow> byte)) outcome" where
  "write_bytes base len meta m a [] = Returns (meta, m)"
| "write_bytes base len meta m a (b # bs) =
     (if \<not> a - base < len then Fault OutOfBounds
      else if a - base < META_SIZE then
        write_bytes base len (set_header_byte (unat (a - base)) b meta) m (a + 1) bs
      else write_bytes base len meta (m(a := b)) (a + 1) bs)"

definition strcpy ::
  "(size_t \<times> size_t) option \<Rightarrow> metadata \<Rightarrow> (size_t \<Rightarrow> byte) \<Rightarrow> size_t \<Rightarrow> byte list
     \<Rightarrow> (metadata \<times> (size_t \<Rightarrow> byte)) outcome" where
  "strcpy mp meta m dst bs =
     (if dst = 0 then Fault NullWrite
      else case mp of
        None \<Rightarrow> Fault OutOfBounds
      | Some (base, len) \<Rightarrow> write_bytes base len meta m dst (c_str bs @ [0]))"

text \<open>
  \<^verbatim>\<open>scm_strdup\<close> passes what \<^verbatim>\<open>scm_malloc\<close> returned to \<^verbatim>\<open>strcpy\<close> without
  looking at it. It returns the pointer, the handle, the resources (a string may
  land on the header) and the bytes after the header.
\<close>

definition scm_strdup ::
  "scm \<Rightarrow> world \<Rightarrow> (size_t \<Rightarrow> byte) \<Rightarrow> byte list
     \<Rightarrow> (size_t \<times> scm \<times> world \<times> (size_t \<Rightarrow> byte)) outcome" where
  "scm_strdup s w m bs =
     (if \<not> scm_live w then Fault UseAfterFree
      else
        let len = strlen bs + 1;
            (new_string, s') = scm_malloc s len
        in case strcpy (mapped w) (header w) m new_string bs of
             Returns (meta, m') \<Rightarrow> Returns (new_string, s', w\<lparr>header := meta\<rparr>, m')
           | Fault f \<Rightarrow> Fault f
           | NoReturn \<Rightarrow> NoReturn)"

subsection \<open>The invariant of the handle and two stores to try things on\<close>

definition scm_inv :: "scm \<Rightarrow> bool" where
  "scm_inv s = (0 \<le> utilized s \<and> utilized s \<le> capacity s)"

text \<open>
  A regular file of \<open>sz\<close> bytes with the header \<open>hdr\<close>, on a machine with pages of
  4096 bytes whose break is below the fixed address; every call succeeds, and one
  \<^verbatim>\<open>write\<close> fills a whole buffer.
\<close>

definition regular_store :: "size_t \<Rightarrow> metadata \<Rightarrow> env" where
  "regular_store sz hdr =
     \<lparr>malloc_ok = True, open_ret = 3, fstat_ret = Some (True, sz), page = 4096,
      brk = 0x555555559000, wr_open_ret = 4, wr_rets = [4096, 4096], mmap_ok = True,
      file_header = hdr\<rparr>"

text \<open>The same machine, the path naming a character device such as \<^verbatim>\<open>/dev/zero\<close>.\<close>

definition device_store :: env where
  "device_store =
     \<lparr>malloc_ok = True, open_ret = 3, fstat_ret = Some (False, 0), page = 4096,
      brk = 0x555555559000, wr_open_ret = 4, wr_rets = [], mmap_ok = True,
      file_header = \<lparr>size_m = 0, signature = 0, checksum = 0\<rparr>\<rparr>"

section \<open>Properties\<close>

subsection \<open>Metadata codec\<close>

lemma load_metadata_status:
  "fst (load_metadata s meta) = 0 \<or> fst (load_metadata s meta) = - 1"
  by (simp add: load_metadata_def)

lemma store_metadata_fields:
  "store_metadata s meta =
     meta\<lparr>size_m := utilized s, checksum := utilized s XOR signature meta\<rparr>"
  by (simp add: store_metadata_def calculate_checksum_def)

text \<open>
  C7. \<^verbatim>\<open>load_metadata\<close> returns 0 exactly when the stored signature is
  \<^verbatim>\<open>SCM_SIGNATURE\<close> and the stored checksum is the stored size XOR the stored
  signature; when it returns 0, the \<^verbatim>\<open>utilized\<close> of the handle is the stored size.
\<close>

theorem load_metadata_succeeds_iff:
  "(fst (load_metadata s meta) = 0) =
     (signature meta = SCM_SIGNATURE \<and> checksum meta = size_m meta XOR signature meta)
   \<and> (fst (load_metadata s meta) = 0 \<longrightarrow> utilized (snd (load_metadata s meta)) = size_m meta)"
  by (simp add: load_metadata_def calculate_checksum_def)

theorem load_metadata_succeeds_iff_witness:
  "fst (load_metadata \<lparr>fd = 3, mem = 0, utilized = 0, capacity = 4096\<rparr>
          \<lparr>size_m = 6, signature = 0xDEEDBEED, checksum = 0xDEEDBEEB\<rparr>) = 0
   \<and> utilized (snd (load_metadata \<lparr>fd = 3, mem = 0, utilized = 0, capacity = 4096\<rparr>
          \<lparr>size_m = 6, signature = 0xDEEDBEED, checksum = 0xDEEDBEEB\<rparr>)) = 6"
  using load_metadata_succeeds_iff
    [of "\<lparr>fd = 3, mem = 0, utilized = 0, capacity = 4096\<rparr>"
        "\<lparr>size_m = 6, signature = 0xDEEDBEED, checksum = 0xDEEDBEEB\<rparr>"]
  by (simp add: SCM_SIGNATURE_def)

text \<open>
  C6, as stated, fails. \<^verbatim>\<open>store_metadata\<close> writes the size and the checksum and
  leaves the signature as it finds it, so on a header whose signature is not
  \<^verbatim>\<open>SCM_SIGNATURE\<close> (here a zero-filled one) the store of 6 is followed by a load
  that returns -1 and leaves \<^verbatim>\<open>utilized\<close> at 0.
\<close>

theorem store_load_counterexample:
  "(6 :: size_t) \<le> capacity \<lparr>fd = 3, mem = 0x600000000018, utilized = 0, capacity = 4096\<rparr>
   \<and> load_metadata \<lparr>fd = 3, mem = 0x600000000018, utilized = 0, capacity = 4096\<rparr>
         (store_metadata \<lparr>fd = 3, mem = 0x600000000018, utilized = 6, capacity = 4096\<rparr>
            \<lparr>size_m = 0, signature = 0, checksum = 0\<rparr>)
       = (- 1, \<lparr>fd = 3, mem = 0x600000000018, utilized = 0, capacity = 4096\<rparr>)"
  by (simp add: load_metadata_def store_metadata_def calculate_checksum_def SCM_SIGNATURE_def)

text \<open>
  C6, amended. On a header whose signature field is \<^verbatim>\<open>SCM_SIGNATURE\<close>, and for every
  \<open>U\<close> up to the capacity, \<^verbatim>\<open>store_metadata\<close> with \<^verbatim>\<open>utilized\<close> = \<open>U\<close> followed by
  \<^verbatim>\<open>load_metadata\<close> returns 0 and sets \<^verbatim>\<open>utilized\<close> to \<open>U\<close>.
\<close>

theorem store_load_roundtrip:
  assumes "signature meta = SCM_SIGNATURE" and "U \<le> capacity s"
  shows "load_metadata s (store_metadata (s\<lparr>utilized := U\<rparr>) meta) = (0, s\<lparr>utilized := U\<rparr>)"
  using assms
  by (simp add: load_metadata_def store_metadata_def calculate_checksum_def)

text \<open>The round trip of 6 through the header of a fresh store of one page.\<close>

theorem store_load_roundtrip_witness:
  "signature \<lparr>size_m = 0, signature = 0xDEEDBEED, checksum = 0xDEEDBEED\<rparr> = SCM_SIGNATURE
   \<and> (6 :: size_t) \<le> capacity \<lparr>fd = 3, mem = 0x600000000018, utilized = 0, capacity = 4096\<rparr>
   \<and> load_metadata \<lparr>fd = 3, mem = 0x600000000018, utilized = 0, capacity = 4096\<rparr>
         (store_metadata
            (\<lparr>fd = 3, mem = 0x600000000018, utilized = 0, capacity = 4096\<rparr>\<lparr>utilized := 6\<rparr>)
            \<lparr>size_m = 0, signature = 0xDEEDBEED, checksum = 0xDEEDBEED\<rparr>)
       = (0, \<lparr>fd = 3, mem = 0x600000000018, utilized = 6, capacity = 4096\<rparr>)"
proof -
  have sig: "signature \<lparr>size_m = 0, signature = 0xDEEDBEED, checksum = 0xDEEDBEED\<rparr>
               = SCM_SIGNATURE"
    by (simp add: SCM_SIGNATURE_def)
  have le: "(6 :: size_t)
              \<le> capacity \<lparr>fd = 3, mem = 0x600000000018, utilized = 0, capacity = 4096\<rparr>"
    by simp
  from store_load_roundtrip [OF sig le] sig le show ?thesis
    by simp
qed

text \<open>
  C10. When \<^verbatim>\<open>scm_close\<close> returns, the header is the one it found with the size and
  the checksum written: the signature field is what it was before the close.
\<close>

theorem scm_close_header:
  assumes "scm_close munmap_ret s w = Returns w'"
  shows "signature (header w') = signature (header w)
         \<and> header w' = (header w)\<lparr>size_m := utilized s,
                                   checksum := utilized s XOR signature (header w)\<rparr>"
  using assms
  by (auto simp: scm_close_def Let_def store_metadata_def calculate_checksum_def
        split: if_splits option.splits prod.splits)

text \<open>Closing a store of one page after six bytes were allocated.\<close>

theorem scm_close_header_witness:
  "scm_close 0 \<lparr>fd = 3, mem = 0x600000000018, utilized = 6, capacity = 4096\<rparr>
     \<lparr>scm_live = True, fd_open = True, mapped = Some (0x600000000000, 4096),
      header = \<lparr>size_m = 0, signature = 0xDEEDBEED, checksum = 0xDEEDBEED\<rparr>,
      zero_filled = 0\<rparr>
   = Returns \<lparr>scm_live = False, fd_open = False, mapped = None,
      header = \<lparr>size_m = 6, signature = 0xDEEDBEED, checksum = 0xDEEDBEEB\<rparr>,
      zero_filled = 0\<rparr>
   \<and> signature \<lparr>size_m = 6, signature = 0xDEEDBEED, checksum = 0xDEEDBEEB :: size_t\<rparr>
       = signature \<lparr>size_m = 0, signature = 0xDEEDBEED, checksum = 0xDEEDBEED :: size_t\<rparr>"
proof -
  have run: "scm_close 0 \<lparr>fd = 3, mem = 0x600000000018, utilized = 6, capacity = 4096\<rparr>
     \<lparr>scm_live = True, fd_open = True, mapped = Some (0x600000000000, 4096),
      header = \<lparr>size_m = 0, signature = 0xDEEDBEED, checksum = 0xDEEDBEED\<rparr>,
      zero_filled = 0\<rparr>
   = Returns \<lparr>scm_live = False, fd_open = False, mapped = None,
      header = \<lparr>size_m = 6, signature = 0xDEEDBEED, checksum = 0xDEEDBEEB\<rparr>,
      zero_filled = 0\<rparr>"
    by (simp add: scm_close_def Let_def store_metadata_def calculate_checksum_def
          META_SIZE_def MAP_FAILED_def)
  from scm_close_header [OF run] run show ?thesis
    by simp
qed

subsection \<open>Linear allocator\<close>

text \<open>
  Where the request fits (the sum of \<^verbatim>\<open>utilized\<close> and \<open>n\<close> as numbers is at most the
  capacity), \<^verbatim>\<open>scm_malloc\<close> returns \<^verbatim>\<open>mem + utilized\<close> and \<^verbatim>\<open>utilized\<close> grows by
  exactly \<open>n\<close>; where the guard of the source is false, it returns \<^verbatim>\<open>NULL\<close> and the
  handle is as it was.
\<close>

lemma scm_malloc_fits:
  assumes "unat (utilized s) + unat n \<le> unat (capacity s)"
  shows "scm_malloc s n = (mem s + utilized s, s\<lparr>utilized := utilized s + n\<rparr>)
         \<and> unat (utilized (snd (scm_malloc s n))) = unat (utilized s) + unat n"
proof -
  have "unat (capacity s) < 2 ^ LENGTH(64)"
    by (rule unsigned_less)
  with assms have "unat (utilized s) + unat n < 2 ^ LENGTH(64)"
    by linarith
  then have sum: "unat (utilized s + n) = unat (utilized s) + unat n"
    by (rule unat_add_lem [THEN iffD1])
  with assms have "utilized s + n \<le> capacity s"
    by (simp add: word_le_nat_alt)
  with sum show ?thesis
    by (simp add: scm_malloc_def)
qed

lemma scm_malloc_exhausted:
  assumes "\<not> utilized s + n \<le> capacity s"
  shows "scm_malloc s n = (0, s)"
  using assms by (simp add: scm_malloc_def)

text \<open>
  C5. With 100 of 4096 bytes in use, a request of \<open>2^64 - 50\<close> bytes does not fit:
  \<open>100 + (2^64 - 50) > 4096\<close>. The claim has \<^verbatim>\<open>scm_malloc\<close> return \<^verbatim>\<open>NULL\<close> and leave
  the handle alone. The sum of the guard wraps to 50, so the code returns
  \<^verbatim>\<open>mem + 100\<close>, which is not \<^verbatim>\<open>NULL\<close>, and sets \<^verbatim>\<open>utilized\<close> back to 50.
\<close>

theorem scm_malloc_wrap_example:
  "unat (100 :: size_t) + unat (- 50 :: size_t) > unat (4096 :: size_t)
   \<and> scm_malloc \<lparr>fd = 3, mem = 0x600000000018, utilized = 100, capacity = 4096\<rparr> (- 50)
     = (0x60000000007C, \<lparr>fd = 3, mem = 0x600000000018, utilized = 50, capacity = 4096\<rparr>)
   \<and> (0x60000000007C :: size_t) \<noteq> 0"
  by (simp add: scm_malloc_def)

text \<open>
  C9, as stated, fails. The header below passes the validation of \<^verbatim>\<open>load_metadata\<close>;
  the reopen of the one-page file returns a handle with \<^verbatim>\<open>utilized\<close> > 0 whose cursor
  address \<^verbatim>\<open>mem + utilized\<close> wraps to 0. On this handle \<^verbatim>\<open>scm_malloc\<close> returns 0, which
  is \<^verbatim>\<open>NULL\<close>, for every request: on the branch that returns the cursor as on the other.
\<close>

theorem scm_malloc_guard_wraps_counterexample:
  "scm_open (regular_store 4096
       \<lparr>size_m = 0xFFFF9FFFFFFFFFE8, signature = 0xDEEDBEED, checksum = 0xFFFF9FFF21124105\<rparr>) 0
     = Returns
         (Some \<lparr>fd = 3, mem = 0x600000000018, utilized = 0xFFFF9FFFFFFFFFE8, capacity = 4096\<rparr>,
          \<lparr>scm_live = True, fd_open = True, mapped = Some (0x600000000000, 4096),
           header = \<lparr>size_m = 0xFFFF9FFFFFFFFFE8, signature = 0xDEEDBEED,
                     checksum = 0xFFFF9FFF21124105\<rparr>,
           zero_filled = 0\<rparr>)
   \<and> 0 < utilized
           \<lparr>fd = 3, mem = 0x600000000018, utilized = 0xFFFF9FFFFFFFFFE8, capacity = 4096\<rparr>
   \<and> \<not> (\<exists>n. uint (4096 :: size_t) - uint (0xFFFF9FFFFFFFFFE8 :: size_t) < uint n
            \<and> fst (scm_malloc
                  \<lparr>fd = 3, mem = 0x600000000018, utilized = 0xFFFF9FFFFFFFFFE8, capacity = 4096\<rparr>
                  n) \<noteq> 0)"
proof -
  have "fst (scm_malloc
          \<lparr>fd = 3, mem = 0x600000000018, utilized = 0xFFFF9FFFFFFFFFE8, capacity = 4096\<rparr> n) = 0"
    for n
    by (simp add: scm_malloc_def)
  then show ?thesis
    by (simp add: regular_store_def scm_open_def file_size_def open_place_def open_map_def
          FREE_scm_def load_metadata_def calculate_checksum_def VM_ADDR_def MAP_FAILED_def
          META_SIZE_def SCM_SIGNATURE_def Let_def)
qed

text \<open>
  C9, amended. For every handle with \<^verbatim>\<open>utilized\<close> > 0 whose cursor address
  \<^verbatim>\<open>mem + utilized\<close> is not 0 there is a request \<open>n\<close> greater than
  \<^verbatim>\<open>capacity - utilized\<close> (the difference taken in the integers) for which
  \<^verbatim>\<open>scm_malloc\<close> returns a pointer that is not \<^verbatim>\<open>NULL\<close>, the cursor address, and
  assigns \<^verbatim>\<open>utilized + n\<close> to \<^verbatim>\<open>utilized\<close>: \<open>n = 2^64 - utilized\<close> makes the sum of the
  guard wrap to 0.
\<close>

theorem scm_malloc_guard_wraps:
  assumes "0 < utilized s" and "mem s + utilized s \<noteq> 0"
  shows "\<exists>n. uint (capacity s) - uint (utilized s) < uint n
           \<and> fst (scm_malloc s n) \<noteq> 0
           \<and> scm_malloc s n = (mem s + utilized s, s\<lparr>utilized := utilized s + n\<rparr>)"
proof -
  let ?n = "- utilized s"
  have pos: "0 < uint (utilized s)"
    using assms(1) by (simp add: word_less_def)
  have "uint ?n = (- uint (utilized s)) mod 2 ^ 64"
    by (simp add: uint_word_ariths)
  also have "\<dots> = 2 ^ 64 - uint (utilized s)"
    using pos uint_lt2p [of "utilized s"] by (simp add: zmod_zminus1_eq_if)
  finally have n: "uint ?n = 2 ^ 64 - uint (utilized s)" .
  have "uint (capacity s) < 2 ^ 64"
    using uint_lt2p [of "capacity s"] by simp
  with n have "uint (capacity s) - uint (utilized s) < uint ?n"
    by simp
  moreover have "scm_malloc s ?n = (mem s + utilized s, s\<lparr>utilized := utilized s + ?n\<rparr>)"
    by (simp add: scm_malloc_def)
  moreover from this assms(2) have "fst (scm_malloc s ?n) \<noteq> 0"
    by simp
  ultimately show ?thesis
    by blast
qed

text \<open>A full store of one page: some request larger than the 0 bytes left is served.\<close>

theorem scm_malloc_guard_wraps_witness:
  "(0 :: size_t) < utilized \<lparr>fd = 3, mem = 0x600000000018, utilized = 4096, capacity = 4096\<rparr>
   \<and> (0x600000000018 :: size_t) + 4096 \<noteq> 0
   \<and> (\<exists>n. uint (4096 :: size_t) - uint (4096 :: size_t) < uint n
          \<and> fst (scm_malloc \<lparr>fd = 3, mem = 0x600000000018, utilized = 4096, capacity = 4096\<rparr> n)
              \<noteq> 0
          \<and> scm_malloc \<lparr>fd = 3, mem = 0x600000000018, utilized = 4096, capacity = 4096\<rparr> n
              = (0x600000001018,
                 \<lparr>fd = 3, mem = 0x600000000018, utilized = 4096 + n, capacity = 4096\<rparr>))"
proof -
  let ?s = "\<lparr>fd = 3, mem = 0x600000000018, utilized = 4096, capacity = 4096\<rparr>"
  have pos: "0 < utilized ?s"
    by simp
  have cursor: "mem ?s + utilized ?s \<noteq> 0"
    by simp
  from scm_malloc_guard_wraps [OF pos cursor] pos cursor show ?thesis
    by simp
qed

text \<open>
  What \<^verbatim>\<open>scm_strdup\<close> does when it returns, and when the guard of \<^verbatim>\<open>scm_malloc\<close> is
  false for the length of the string plus one: it writes through \<^verbatim>\<open>NULL\<close>.
\<close>

lemma scm_strdup_Returns:
  assumes "scm_strdup s w m bs = Returns (p, s', w', m')"
  shows "p = mem s + utilized s \<and> p \<noteq> 0
         \<and> s' = s\<lparr>utilized := utilized s + (strlen bs + 1)\<rparr>
         \<and> utilized s + (strlen bs + 1) \<le> capacity s"
  using assms
  by (auto simp: scm_strdup_def scm_malloc_def strcpy_def Let_def
        split: if_splits outcome.splits)

lemma scm_strdup_Fault:
  assumes "scm_live w" and "\<not> utilized s + (strlen bs + 1) \<le> capacity s"
  shows "scm_strdup s w m bs = Fault NullWrite"
  using assms
  by (simp add: scm_strdup_def scm_malloc_def strcpy_def)

text \<open>The string "hello" in an empty store: six bytes at the base, the last one NUL.\<close>

lemma scm_strdup_hello:
  "\<exists>m'. scm_strdup \<lparr>fd = 3, mem = 0x600000000018, utilized = 0, capacity = 4096\<rparr>
       \<lparr>scm_live = True, fd_open = True, mapped = Some (0x600000000000, 4096),
        header = \<lparr>size_m = 0, signature = 0xDEEDBEED, checksum = 0xDEEDBEED\<rparr>,
        zero_filled = 4096\<rparr>
       (\<lambda>a. 7) [104, 101, 108, 108, 111]
     = Returns (0x600000000018,
         \<lparr>fd = 3, mem = 0x600000000018, utilized = 6, capacity = 4096\<rparr>,
         \<lparr>scm_live = True, fd_open = True, mapped = Some (0x600000000000, 4096),
          header = \<lparr>size_m = 0, signature = 0xDEEDBEED, checksum = 0xDEEDBEED\<rparr>,
          zero_filled = 4096\<rparr>, m')
     \<and> map m' [0x600000000018, 0x600000000019, 0x60000000001A, 0x60000000001B,
               0x60000000001C, 0x60000000001D, 0x60000000001E]
       = [104, 101, 108, 108, 111, 0, 7]"
  by (simp add: scm_strdup_def scm_malloc_def strlen_def c_str_def strcpy_def META_SIZE_def)

text \<open>
  The cursor starts \<^verbatim>\<open>META_SIZE\<close> bytes into the mapping and may run up to the
  capacity: with 4090 of 4096 bytes in use the guard lets the six bytes of "hello"
  through, and they lie past the end of the mapping.
\<close>

lemma scm_strdup_past_mapping:
  "scm_strdup \<lparr>fd = 3, mem = 0x600000000018, utilized = 4090, capacity = 4096\<rparr>
       \<lparr>scm_live = True, fd_open = True, mapped = Some (0x600000000000, 4096),
        header = \<lparr>size_m = 0, signature = 0xDEEDBEED, checksum = 0xDEEDBEED\<rparr>,
        zero_filled = 4096\<rparr>
       (\<lambda>a. 0) [104, 101, 108, 108, 111]
     = Fault OutOfBounds"
  by (simp add: scm_strdup_def scm_malloc_def strlen_def c_str_def strcpy_def META_SIZE_def)

text \<open>
  C3. In a full store \<^verbatim>\<open>scm_malloc\<close> returns \<^verbatim>\<open>NULL\<close> for the six bytes of "hello".
  The claim has \<^verbatim>\<open>scm_strdup\<close> return that failure; the code hands the \<^verbatim>\<open>NULL\<close> to
  \<^verbatim>\<open>strcpy\<close>, which writes through it.
\<close>

theorem scm_strdup_full_store:
  "scm_malloc \<lparr>fd = 3, mem = 0x600000000018, utilized = 4096, capacity = 4096\<rparr> 6
     = (0, \<lparr>fd = 3, mem = 0x600000000018, utilized = 4096, capacity = 4096\<rparr>)
   \<and> scm_strdup \<lparr>fd = 3, mem = 0x600000000018, utilized = 4096, capacity = 4096\<rparr>
       \<lparr>scm_live = True, fd_open = True, mapped = Some (0x600000000000, 4096),
        header = \<lparr>size_m = 0, signature = 0xDEEDBEED, checksum = 0xDEEDBEED\<rparr>,
        zero_filled = 4096\<rparr>
       (\<lambda>a. 0) [104, 101, 108, 108, 111] = Fault NullWrite"
  by (simp add: scm_strdup_def scm_malloc_def strlen_def c_str_def strcpy_def)

subsection \<open>Mapping manager\<close>

lemmas open_defs = scm_open_def file_size_def open_place_def open_map_def FREE_scm_def
  init_zero_def zero_fill_def zero_low_bytes_def initialize_metadata_def load_metadata_def
  calculate_checksum_def VM_ADDR_def MAP_FAILED_def META_SIZE_def SCM_SIGNATURE_def Let_def

text \<open>The zero fill touches the header and nothing else.\<close>

lemma zero_fill_frame:
  "scm_live (zero_fill n w) = scm_live w \<and> fd_open (zero_fill n w) = fd_open w
   \<and> mapped (zero_fill n w) = mapped w \<and> zero_filled (zero_fill n w) = n"
  by (simp add: zero_fill_def)

text \<open>What the stages of \<^verbatim>\<open>scm_open\<close> leave in the handle they return.\<close>

lemma load_metadata_utilized:
  "utilized (snd (load_metadata s meta)) =
     (if fst (load_metadata s meta) = 0 then size_m meta else utilized s)"
  by (simp add: load_metadata_def)

lemma load_metadata_frame:
  "fd (snd (load_metadata s meta)) = fd s \<and> mem (snd (load_metadata s meta)) = mem s
   \<and> capacity (snd (load_metadata s meta)) = capacity s"
  by (simp add: load_metadata_def)

lemma file_size_Returns:
  assumes "file_size e s w = Returns (rc, s', w')"
  shows "utilized s' = utilized s \<and> header w' = header w \<and> fd s' = fd s
         \<and> (scm_live w' \<longrightarrow>
              (\<exists>sz. fstat_ret e = Some (True, sz) \<and> capacity s' = (sz div page e) * page e))"
  using assms
  by (auto simp: file_size_def Let_def split: if_splits option.splits prod.splits)

lemma open_map_Some:
  assumes "open_map e t v s w = Returns (Some h, w')"
  shows "scm_live w \<and> capacity s \<noteq> 0 \<and> capacity h = capacity s
         \<and> (t \<noteq> 0 \<longrightarrow> utilized h = 0)
         \<and> (t = 0 \<longrightarrow> utilized h = utilized s \<or> utilized h = size_m (header w))"
  using assms
  by (auto simp: open_map_def Let_def FREE_scm_def initialize_metadata_def
        load_metadata_utilized load_metadata_frame split: if_splits)

lemma open_place_Some:
  assumes "open_place e t s w = Returns (Some h, w')"
  shows "scm_live w \<and> capacity s \<noteq> 0 \<and> capacity h = capacity s
         \<and> (t \<noteq> 0 \<longrightarrow> utilized h = 0)
         \<and> (t = 0 \<longrightarrow> utilized h = utilized s \<or> utilized h = size_m (header w))"
proof -
  have "\<exists>v w0. open_map e t v s w0 = Returns (Some h, w')
           \<and> scm_live w0 = scm_live w \<and> (t = 0 \<longrightarrow> w0 = w)"
    using assms
    by (auto simp: open_place_def Let_def FREE_scm_def
          split: if_splits option.splits prod.splits outcome.splits)
      (metis zero_fill_frame)
  then obtain v w0 where "open_map e t v s w0 = Returns (Some h, w')"
    and "scm_live w0 = scm_live w" and "t = 0 \<longrightarrow> w0 = w"
    by blast
  with open_map_Some [of e t v s w0 h w'] show ?thesis
    by auto
qed

text \<open>
  A handle is returned only for a regular file whose size is at least a page; its
  capacity is the size of the file rounded down to whole pages, and its \<^verbatim>\<open>utilized\<close>
  is 0 or, on a reopen, the size field of the header.
\<close>

lemma scm_open_Some:
  assumes "scm_open e t = Returns (Some h, w)"
  shows "(\<exists>sz. fstat_ret e = Some (True, sz) \<and> capacity h = (sz div page e) * page e)
         \<and> capacity h \<noteq> 0
         \<and> (t \<noteq> 0 \<longrightarrow> utilized h = 0)
         \<and> (t = 0 \<longrightarrow> utilized h = 0 \<or> utilized h = size_m (file_header e))"
proof -
  let ?w = "\<lparr>scm_live = True, fd_open = True, mapped = None, header = file_header e,
                                                                    zero_filled = 0\<rparr>"
  let ?s = "\<lparr>fd = open_ret e, mem = 0, utilized = 0, capacity = 0\<rparr>"
  obtain rc s2 w2 where fs: "file_size e ?s ?w = Returns (rc, s2, w2)"
    and op: "open_place e t s2 w2 = Returns (Some h, w)"
    using assms
    by (auto simp: scm_open_def Let_def FREE_scm_def split: if_splits outcome.splits)
  from file_size_Returns [OF fs] open_place_Some [OF op] show ?thesis
    by auto
qed

text \<open>When \<^verbatim>\<open>scm_open\<close> returns \<^verbatim>\<open>NULL\<close>, the block of the handle has been released.\<close>

lemma scm_open_None_released:
  assumes "scm_open e t = Returns (None, w)"
  shows "\<not> scm_live w \<and> mapped w = None"
  using assms
  by (auto simp: scm_open_def file_size_def open_place_def open_map_def FREE_scm_def Let_def
        zero_fill_frame split: if_splits option.splits prod.splits outcome.splits)

text \<open>
  The handle \<^verbatim>\<open>scm_open\<close> returns points \<^verbatim>\<open>META_SIZE\<close> bytes into the mapping, and
  \<^verbatim>\<open>scm_malloc\<close> does not move it: \<^verbatim>\<open>scm_close\<close> finds the header and returns.
\<close>

lemma open_map_mapped:
  assumes "open_map e t v s w = Returns (Some h, w')"
  shows "scm_live w' \<and> mapped w' = Some (mem h - META_SIZE, capacity h)"
  using assms
  by (auto simp: open_map_def Let_def FREE_scm_def initialize_metadata_def
        load_metadata_frame split: if_splits)

lemma scm_open_mapped:
  assumes "scm_open e t = Returns (Some h, w)"
  shows "scm_live w \<and> mapped w = Some (mem h - META_SIZE, capacity h)"
proof -
  have "\<exists>v s w0. open_map e t v s w0 = Returns (Some h, w)"
    using assms
    by (auto simp: scm_open_def open_place_def Let_def FREE_scm_def
          split: if_splits option.splits prod.splits outcome.splits)
  then show ?thesis
    using open_map_mapped by blast
qed

lemma scm_close_after_open:
  assumes "scm_open e t = Returns (Some h, w)"
  shows "\<exists>w'. scm_close munmap_ret (snd (scm_malloc h n)) w = Returns w'"
  using scm_open_mapped [OF assms]
  by (simp add: scm_close_def scm_malloc_def Let_def)

text \<open>
  For a file that is not regular, \<^verbatim>\<open>file_size\<close> releases the handle and returns -1;
  \<^verbatim>\<open>scm_open\<close> does not look at the status and goes on with the released handle.
\<close>

lemma scm_open_not_regular:
  assumes "malloc_ok e" and "0 \<le> open_ret e" and "fstat_ret e = Some (False, sz)"
  shows "\<exists>f. scm_open e t = Fault f"
  using assms
  by (auto simp: scm_open_def file_size_def open_place_def open_map_def FREE_scm_def Let_def)

text \<open>A fresh store of two pages, opened with \<^verbatim>\<open>truncate\<close> set.\<close>

lemma scm_open_fresh:
  "scm_open (regular_store 8192 \<lparr>size_m = 0, signature = 0, checksum = 0\<rparr>) 1
     = Returns (Some \<lparr>fd = 3, mem = 0x600000000018, utilized = 0, capacity = 8192\<rparr>,
         \<lparr>scm_live = True, fd_open = True, mapped = Some (0x600000000000, 8192),
          header = \<lparr>size_m = 0, signature = 0xDEEDBEED, checksum = 0xDEEDBEED\<rparr>,
          zero_filled = 8192\<rparr>)"
  by (simp add: regular_store_def open_defs)

text \<open>
  A reopen of a store of one page returns a handle whatever the header holds;
  \<^verbatim>\<open>utilized\<close> is 0 when \<^verbatim>\<open>load_metadata\<close> rejected the header.
\<close>

lemma scm_open_reopen_any_header:
  "scm_open (regular_store 4096 hdr) 0
     = Returns (Some \<lparr>fd = 3, mem = 0x600000000018,
                      utilized = (if fst (load_metadata s hdr) = 0 then size_m hdr else 0),
                      capacity = 4096\<rparr>,
         \<lparr>scm_live = True, fd_open = True, mapped = Some (0x600000000000, 4096), header = hdr,
                                                                                        zero_filled = 0\<rparr>)"
  by (simp add: regular_store_def open_defs)

text \<open>
  C1. A file of one page whose header was overwritten with unrelated data:
  \<^verbatim>\<open>load_metadata\<close> returns -1 on it. The claim has the reopen fail; \<^verbatim>\<open>scm_open\<close>
  drops the status and returns a handle with \<^verbatim>\<open>utilized\<close> = 0.
\<close>

theorem scm_open_foreign_header:
  "fst (load_metadata \<lparr>fd = 3, mem = 0x600000000000, utilized = 0, capacity = 4096\<rparr>
          \<lparr>size_m = 0x1234, signature = 0x41414141, checksum = 0x99\<rparr>) = - 1
   \<and> scm_open (regular_store 4096 \<lparr>size_m = 0x1234, signature = 0x41414141, checksum = 0x99\<rparr>) 0
     = Returns (Some \<lparr>fd = 3, mem = 0x600000000018, utilized = 0, capacity = 4096\<rparr>,
         \<lparr>scm_live = True, fd_open = True, mapped = Some (0x600000000000, 4096),
          header = \<lparr>size_m = 0x1234, signature = 0x41414141, checksum = 0x99\<rparr>,
          zero_filled = 0\<rparr>)"
  by (simp add: regular_store_def open_defs)

text \<open>
  C2. The path names a character device. \<^verbatim>\<open>file_size\<close> releases the handle and
  returns -1. The claim has the open fail there; \<^verbatim>\<open>scm_open\<close> goes on and reads
  \<^verbatim>\<open>scm->capacity\<close> and \<^verbatim>\<open>scm->fd\<close> from the released block for \<^verbatim>\<open>mmap\<close>.
\<close>

theorem scm_open_device:
  "file_size device_store \<lparr>fd = 3, mem = 0, utilized = 0, capacity = 0\<rparr>
       \<lparr>scm_live = True, fd_open = True, mapped = None,
        header = \<lparr>size_m = 0, signature = 0, checksum = 0\<rparr>,
        zero_filled = 0\<rparr>
     = Returns (- 1, \<lparr>fd = 3, mem = 0, utilized = 0, capacity = 0\<rparr>,
         \<lparr>scm_live = False, fd_open = True, mapped = None,
          header = \<lparr>size_m = 0, signature = 0, checksum = 0\<rparr>,
          zero_filled = 0\<rparr>)
   \<and> scm_open device_store 0 = Fault UseAfterFree"
  by (simp add: device_store_def open_defs)

text \<open>
  The path on which the zero fill fails closes the descriptor and releases the handle.
\<close>

lemma scm_open_zero_fill_failure:
  "scm_open ((regular_store 4096 \<lparr>size_m = 0, signature = 0, checksum = 0\<rparr>)
                  \<lparr>wr_rets := [- 1]\<rparr>) 1
     = Returns (None, \<lparr>scm_live = False, fd_open = False, mapped = None,
                       header = \<lparr>size_m = 0, signature = 0, checksum = 0\<rparr>,
                       zero_filled = 0\<rparr>)"
  by (simp add: regular_store_def open_defs)

text \<open>
  The zeros are in the file also when the zero fill fails after a first buffer: the
  header of the file of two pages is cleared, and \<^verbatim>\<open>NULL\<close> is returned.
\<close>

lemma scm_open_zero_fill_partial:
  "scm_open ((regular_store 8192
                \<lparr>size_m = 6, signature = 0xDEEDBEED, checksum = 0xDEEDBEEB\<rparr>)
                  \<lparr>wr_rets := [4096, - 1]\<rparr>) 1
     = Returns (None, \<lparr>scm_live = False, fd_open = False, mapped = None,
                       header = \<lparr>size_m = 0, signature = 0, checksum = 0\<rparr>,
                       zero_filled = 4096\<rparr>)"
  by (simp add: regular_store_def open_defs)

text \<open>
  A file of 5000 bytes has a capacity of one page; the zero fill writes two buffers
  and leaves the file 8192 bytes long.
\<close>

lemma scm_open_zero_fill_grows:
  "scm_open (regular_store 5000 \<lparr>size_m = 0, signature = 0, checksum = 0\<rparr>) 1
     = Returns (Some \<lparr>fd = 3, mem = 0x600000000018, utilized = 0, capacity = 4096\<rparr>,
         \<lparr>scm_live = True, fd_open = True, mapped = Some (0x600000000000, 4096),
          header = \<lparr>size_m = 0, signature = 0xDEEDBEED, checksum = 0xDEEDBEED\<rparr>,
          zero_filled = 8192\<rparr>)"
  by (simp add: regular_store_def open_defs)

text \<open>
  C8. An empty regular file (\<^verbatim>\<open>mmap\<close> fails for the length 0), and a store of one page
  on a machine whose break is above the fixed address. The claim has the descriptor
  closed before \<^verbatim>\<open>NULL\<close> is returned; on both paths the code releases the handle only,
  and the descriptor is still open.
\<close>

theorem scm_open_leaks_descriptor:
  "scm_open (regular_store 0 \<lparr>size_m = 0, signature = 0, checksum = 0\<rparr>) 0
     = Returns (None, \<lparr>scm_live = False, fd_open = True, mapped = None,
                       header = \<lparr>size_m = 0, signature = 0, checksum = 0\<rparr>,
                       zero_filled = 0\<rparr>)
   \<and> scm_open ((regular_store 4096 \<lparr>size_m = 0, signature = 0, checksum = 0\<rparr>)
                  \<lparr>brk := 0x600000001000\<rparr>) 0
     = Returns (None, \<lparr>scm_live = False, fd_open = True, mapped = None,
                       header = \<lparr>size_m = 0, signature = 0, checksum = 0\<rparr>,
                       zero_filled = 0\<rparr>)"
  by (simp add: regular_store_def open_defs)

subsection \<open>The invariant\<close>

lemma scm_malloc_inv: "scm_inv s \<Longrightarrow> scm_inv (snd (scm_malloc s n))"
  by (simp add: scm_malloc_def scm_inv_def)

lemma scm_strdup_inv:
  "scm_strdup s w m bs = Returns (p, s', w', m') \<Longrightarrow> scm_inv s \<Longrightarrow> scm_inv s'"
  by (auto simp: scm_inv_def dest!: scm_strdup_Returns)

lemma load_metadata_inv:
  "scm_inv s \<Longrightarrow> size_m meta \<le> capacity s \<Longrightarrow> scm_inv (snd (load_metadata s meta))"
  by (simp add: load_metadata_def scm_inv_def)

lemma scm_open_inv:
  assumes "scm_open e t = Returns (Some h, w)"
    and "t \<noteq> 0 \<or> size_m (file_header e) \<le> capacity h"
  shows "scm_inv h"
  using scm_open_Some [OF assms(1)] assms(2)
  by (auto simp: scm_inv_def)

text \<open>
  C4, as stated, fails. The header below passes the validation of \<^verbatim>\<open>load_metadata\<close>
  and stores the size 8192; the file has one page. The reopen returns a handle with
  \<^verbatim>\<open>utilized\<close> = 8192 and \<^verbatim>\<open>capacity\<close> = 4096.
\<close>

theorem scm_inv_counterexample:
  "fst (load_metadata \<lparr>fd = 3, mem = 0x600000000000, utilized = 0, capacity = 4096\<rparr>
          \<lparr>size_m = 8192, signature = 0xDEEDBEED, checksum = 0xDEED9EED\<rparr>) = 0
   \<and> scm_open (regular_store 4096
                  \<lparr>size_m = 8192, signature = 0xDEEDBEED, checksum = 0xDEED9EED\<rparr>) 0
     = Returns (Some \<lparr>fd = 3, mem = 0x600000000018, utilized = 8192, capacity = 4096\<rparr>,
         \<lparr>scm_live = True, fd_open = True, mapped = Some (0x600000000000, 4096),
          header = \<lparr>size_m = 8192, signature = 0xDEEDBEED, checksum = 0xDEED9EED\<rparr>,
          zero_filled = 0\<rparr>)
   \<and> \<not> scm_inv \<lparr>fd = 3, mem = 0x600000000018, utilized = 8192, capacity = 4096\<rparr>"
  by (simp add: regular_store_def open_defs scm_inv_def)

text \<open>
  C4, amended. \<open>0 \<le> utilized \<le> capacity\<close> holds for every handle \<^verbatim>\<open>scm_open\<close>
  returns with \<^verbatim>\<open>truncate\<close> set, and for every handle it returns on a reopen of a file
  whose header stores a size up to the capacity. \<^verbatim>\<open>scm_malloc\<close> keeps it,
  \<^verbatim>\<open>scm_strdup\<close> keeps it when it returns, and \<^verbatim>\<open>load_metadata\<close> keeps it on a
  header that stores a size up to the capacity. (\<^verbatim>\<open>store_metadata\<close> writes the header
  only, and \<^verbatim>\<open>scm_close\<close> the header and then releases the handle: neither assigns
  \<^verbatim>\<open>utilized\<close> or \<^verbatim>\<open>capacity\<close>.)
\<close>

theorem scm_inv_holds:
  "(scm_open e t = Returns (Some h, w) \<longrightarrow>
      (t \<noteq> 0 \<or> size_m (file_header e) \<le> capacity h) \<longrightarrow> scm_inv h)
   \<and> (scm_inv s \<longrightarrow> scm_inv (snd (scm_malloc s n)))
   \<and> (scm_inv s \<longrightarrow> scm_strdup s w0 m bs = Returns (p, s', w', m') \<longrightarrow> scm_inv s')
   \<and> (scm_inv s \<longrightarrow> size_m meta \<le> capacity s \<longrightarrow> scm_inv (snd (load_metadata s meta)))"
  using scm_open_inv scm_malloc_inv scm_strdup_inv load_metadata_inv
  by blast

text \<open>
  A store of two pages that holds "hello" is reopened; then six more bytes are
  allocated, the string is duplicated, and the header is loaded again.
\<close>

theorem scm_inv_holds_witness:
  "scm_open (regular_store 8192 \<lparr>size_m = 6, signature = 0xDEEDBEED, checksum = 0xDEEDBEEB\<rparr>) 0
     = Returns (Some \<lparr>fd = 3, mem = 0x600000000018, utilized = 6, capacity = 8192\<rparr>,
         \<lparr>scm_live = True, fd_open = True, mapped = Some (0x600000000000, 8192),
          header = \<lparr>size_m = 6, signature = 0xDEEDBEED, checksum = 0xDEEDBEEB\<rparr>,
          zero_filled = 0\<rparr>)
   \<and> (6 :: size_t) \<le> capacity \<lparr>fd = 3, mem = 0x600000000018, utilized = 6, capacity = 8192\<rparr>
   \<and> scm_inv \<lparr>fd = 3, mem = 0x600000000018, utilized = 6, capacity = 8192\<rparr>
   \<and> scm_inv (snd (scm_malloc
         \<lparr>fd = 3, mem = 0x600000000018, utilized = 6, capacity = 8192\<rparr> 6))
   \<and> (\<exists>m'. scm_strdup \<lparr>fd = 3, mem = 0x600000000018, utilized = 6, capacity = 8192\<rparr>
           \<lparr>scm_live = True, fd_open = True, mapped = Some (0x600000000000, 8192),
            header = \<lparr>size_m = 6, signature = 0xDEEDBEED, checksum = 0xDEEDBEEB\<rparr>,
            zero_filled = 0\<rparr>
           (\<lambda>a. 0) [104, 101, 108, 108, 111]
         = Returns (0x60000000001E,
             \<lparr>fd = 3, mem = 0x600000000018, utilized = 12, capacity = 8192\<rparr>,
             \<lparr>scm_live = True, fd_open = True, mapped = Some (0x600000000000, 8192),
              header = \<lparr>size_m = 6, signature = 0xDEEDBEED, checksum = 0xDEEDBEEB\<rparr>,
              zero_filled = 0\<rparr>, m'))
   \<and> scm_inv \<lparr>fd = 3, mem = 0x600000000018, utilized = 12, capacity = 8192\<rparr>
   \<and> scm_inv (snd (load_metadata
         \<lparr>fd = 3, mem = 0x600000000018, utilized = 6, capacity = 8192\<rparr>
         \<lparr>size_m = 6, signature = 0xDEEDBEED, checksum = 0xDEEDBEEB\<rparr>))"
proof -
  let ?hdr = "\<lparr>size_m = 6, signature = 0xDEEDBEED, checksum = 0xDEEDBEEB\<rparr> :: metadata"
  let ?h = "\<lparr>fd = 3, mem = 0x600000000018, utilized = 6, capacity = 8192\<rparr>"
  let ?h' = "\<lparr>fd = 3, mem = 0x600000000018, utilized = 12, capacity = 8192\<rparr>"
  let ?w = "\<lparr>scm_live = True, fd_open = True, mapped = Some (0x600000000000, 8192),
             header = ?hdr, zero_filled = 0\<rparr>"
  have opened: "scm_open (regular_store 8192 ?hdr) 0 = Returns (Some ?h, ?w)"
    by (simp add: regular_store_def open_defs)
  have stored: "size_m (file_header (regular_store 8192 ?hdr)) \<le> capacity ?h"
    by (simp add: regular_store_def)
  have "\<exists>m'. scm_strdup ?h ?w (\<lambda>a. 0) [104, 101, 108, 108, 111]
                = Returns (0x60000000001E, ?h', ?w, m')"
    by (simp add: scm_strdup_def scm_malloc_def strlen_def c_str_def strcpy_def META_SIZE_def)
  then obtain m' where dup: "scm_strdup ?h ?w (\<lambda>a. 0) [104, 101, 108, 108, 111]
                               = Returns (0x60000000001E, ?h', ?w, m')"
    by blast
  have le: "size_m ?hdr \<le> capacity ?h"
    by simp
  from scm_inv_holds [where e = "regular_store 8192 ?hdr" and t = 0 and h = ?h and w = ?w
      and s = ?h and n = 6 and ?w0.0 = ?w and m = "\<lambda>a. 0" and bs = "[104, 101, 108, 108, 111]"
      and p = "0x60000000001E" and s' = ?h' and w' = ?w and m' = m' and meta = ?hdr]
    opened stored dup le
  show ?thesis
    by auto
qed

subsection \<open>Two runs from open to reopen\<close>

text \<open>
  A fresh file of two pages is opened with \<^verbatim>\<open>truncate\<close> set, the six bytes of
  "hello" are allocated, the store is closed and opened again: \<^verbatim>\<open>utilized\<close> is 6.
\<close>

lemma scenario_hello:
  "scm_open (regular_store 8192 \<lparr>size_m = 0, signature = 0, checksum = 0\<rparr>) 1
     = Returns (Some \<lparr>fd = 3, mem = 0x600000000018, utilized = 0, capacity = 8192\<rparr>,
         \<lparr>scm_live = True, fd_open = True, mapped = Some (0x600000000000, 8192),
          header = \<lparr>size_m = 0, signature = 0xDEEDBEED, checksum = 0xDEEDBEED\<rparr>,
          zero_filled = 8192\<rparr>)
   \<and> scm_malloc \<lparr>fd = 3, mem = 0x600000000018, utilized = 0, capacity = 8192\<rparr>
         (strlen [104, 101, 108, 108, 111] + 1)
     = (0x600000000018, \<lparr>fd = 3, mem = 0x600000000018, utilized = 6, capacity = 8192\<rparr>)
   \<and> scm_close 0 \<lparr>fd = 3, mem = 0x600000000018, utilized = 6, capacity = 8192\<rparr>
         \<lparr>scm_live = True, fd_open = True, mapped = Some (0x600000000000, 8192),
          header = \<lparr>size_m = 0, signature = 0xDEEDBEED, checksum = 0xDEEDBEED\<rparr>,
          zero_filled = 8192\<rparr>
     = Returns \<lparr>scm_live = False, fd_open = False, mapped = None,
          header = \<lparr>size_m = 6, signature = 0xDEEDBEED, checksum = 0xDEEDBEEB\<rparr>,
          zero_filled = 8192\<rparr>
   \<and> scm_open (regular_store 8192
         \<lparr>size_m = 6, signature = 0xDEEDBEED, checksum = 0xDEEDBEEB\<rparr>) 0
     = Returns (Some \<lparr>fd = 3, mem = 0x600000000018, utilized = 6, capacity = 8192\<rparr>,
         \<lparr>scm_live = True, fd_open = True, mapped = Some (0x600000000000, 8192),
          header = \<lparr>size_m = 6, signature = 0xDEEDBEED, checksum = 0xDEEDBEEB\<rparr>,
          zero_filled = 0\<rparr>)"
  by (simp add: regular_store_def open_defs scm_malloc_def strlen_def c_str_def
        scm_close_def store_metadata_def)

text \<open>
  The same on a zero-filled file that is opened without \<^verbatim>\<open>truncate\<close> the first
  time: the close writes the size 6 under the signature 0, and the next open finds
  \<^verbatim>\<open>utilized\<close> = 0.
\<close>

lemma scenario_never_initialized:
  "scm_open (regular_store 8192 \<lparr>size_m = 0, signature = 0, checksum = 0\<rparr>) 0
     = Returns (Some \<lparr>fd = 3, mem = 0x600000000018, utilized = 0, capacity = 8192\<rparr>,
         \<lparr>scm_live = True, fd_open = True, mapped = Some (0x600000000000, 8192),
          header = \<lparr>size_m = 0, signature = 0, checksum = 0\<rparr>,
          zero_filled = 0\<rparr>)
   \<and> scm_malloc \<lparr>fd = 3, mem = 0x600000000018, utilized = 0, capacity = 8192\<rparr>
         (strlen [104, 101, 108, 108, 111] + 1)
     = (0x600000000018, \<lparr>fd = 3, mem = 0x600000000018, utilized = 6, capacity = 8192\<rparr>)
   \<and> scm_close 0 \<lparr>fd = 3, mem = 0x600000000018, utilized = 6, capacity = 8192\<rparr>
         \<lparr>scm_live = True, fd_open = True, mapped = Some (0x600000000000, 8192),
          header = \<lparr>size_m = 0, signature = 0, checksum = 0\<rparr>,
          zero_filled = 0\<rparr>
     = Returns \<lparr>scm_live = False, fd_open = False, mapped = None,
          header = \<lparr>size_m = 6, signature = 0, checksum = 6\<rparr>,
          zero_filled = 0\<rparr>
   \<and> scm_open (regular_store 8192 \<lparr>size_m = 6, signature = 0, checksum = 6\<rparr>) 0
     = Returns (Some \<lparr>fd = 3, mem = 0x600000000018, utilized = 0, capacity = 8192\<rparr>,
         \<lparr>scm_live = True, fd_open = True, mapped = Some (0x600000000000, 8192),
          header = \<lparr>size_m = 6, signature = 0, checksum = 6\<rparr>,
          zero_filled = 0\<rparr>)"
  by (simp add: regular_store_def open_defs scm_malloc_def strlen_def c_str_def
        scm_close_def store_metadata_def)

end
